theory Spec2Isabelle
  imports Complex_Main
begin

section \<open>Exceptions, external calls and the observable world\<close>

text \<open>
  The scripts orchestrate third-party services and models. Each collaborator is a field
  of an environment record: a function from the arguments of the call to either the
  exception it raises (\<open>Inl\<close>) or the value it returns (\<open>Inr\<close>). A model handle that
  failed to load at start-up is \<open>None\<close>, as the global variable is in the source.

  The world that a call can change is the set of files in the working directory and
  the sequence of external calls made so far, in order.
\<close>

datatype error = RequestException string | OtherException string

datatype call =
    Fetch string "string list"
  | GetAudioOnly string
  | Download string
  | Transcribe string
  | Exists string
  | Remove string
  | TextBlob string
  | Summarize string nat nat bool
  | Nlp string
  | HttpGet string nat

record world =
  files :: "string set"
  calls :: "call list"

text \<open>
  \<open>audio_stream.download(filename=...)\<close> either writes the file and returns its path,
  or raises; when it raises it may or may not have left a partial file behind.
  File names are relative to the working directory, so the path returned by a
  successful download is the file name that was asked for.
\<close>

datatype download_result = Downloaded | DownloadFailed error bool

record env =
  fetch :: "string \<Rightarrow> string list \<Rightarrow> error + string list"
  get_audio_only :: "string \<Rightarrow> error + download_result option"
  whisper_model :: "(string \<Rightarrow> error + (string \<rightharpoonup> string)) option"
  remove_denied :: "string \<Rightarrow> error option"
  textblob_polarity :: "string \<Rightarrow> error + rat"
  summarizer :: "(string \<Rightarrow> nat \<Rightarrow> nat \<Rightarrow> bool \<Rightarrow> error + (string \<rightharpoonup> string) list) option"
  nlp :: "(string \<Rightarrow> error + (string \<times> string) list) option"

definition record_call :: "call \<Rightarrow> world \<Rightarrow> world" where
  "record_call c w = w\<lparr>calls := calls w @ [c]\<rparr>"

text \<open>
  \<open>os.path.exists(p)\<close> and \<open>os.remove(p)\<close>. Removing a file that is not there raises
  (FileNotFoundError); removing one that is there can still be refused by the system.
\<close>

definition os_path_exists :: "string \<Rightarrow> world \<Rightarrow> bool \<times> world" where
  "os_path_exists p w = (p \<in> files w, record_call (Exists p) w)"

definition os_remove :: "env \<Rightarrow> string \<Rightarrow> world \<Rightarrow> (error + unit) \<times> world" where
  "os_remove e p w =
     (let w' = record_call (Remove p) w in
      if p \<notin> files w then (Inl (OtherException ''FileNotFoundError''), w')
      else (case remove_denied e p of
              Some err \<Rightarrow> (Inl err, w')
            | None \<Rightarrow> (Inr (), w'\<lparr>files := files w - {p}\<rparr>)))"

section \<open>String helpers of the Python runtime\<close>

text \<open>\<open>s.split(sep)\<close> for a one-character separator: never the empty list.\<close>

fun split_on :: "char \<Rightarrow> string \<Rightarrow> string list" where
  "split_on sep [] = [[]]"
| "split_on sep (c # cs) =
     (if c = sep then [] # split_on sep cs
      else (case split_on sep cs of
              [] \<Rightarrow> [[c]]
            | p # ps \<Rightarrow> (c # p) # ps))"

text \<open>\<open>sep.join(xs)\<close>.\<close>

fun join :: "string \<Rightarrow> string list \<Rightarrow> string" where
  "join sep [] = []"
| "join sep [x] = x"
| "join sep (x # y # ys) = x @ sep @ join sep (y # ys)"

section \<open>The transcript resolver: \<open>get_transcript\<close>\<close>

definition video_id_of :: "string \<Rightarrow> string" where
  "video_id_of video_url =
     (if CHR ''='' \<in> set video_url then last (split_on CHR ''='' video_url)
      else last (split_on CHR ''/'' video_url))"

definition languages :: "string list" where
  "languages = [''en'', ''en-US'', ''en-GB'']"

definition temp_audio :: string where
  "temp_audio = ''temp_audio.mp4''"

text \<open>The handler of the inner \<open>try\<close>: remove the temporary file if it exists, return None.\<close>

definition method2_failed :: "env \<Rightarrow> world \<Rightarrow> string option \<times> world" where
  "method2_failed e w =
     (let (there, w1) = os_path_exists temp_audio w in
      if there then (let (r, w2) = os_remove e temp_audio w1 in (None, w2))
      else (None, w1))"

text \<open>
  The body of the inner \<open>try\<close>, entered once the first method has failed and the
  speech-to-text model is known to be loaded.
\<close>

definition method2 ::
  "env \<Rightarrow> (string \<Rightarrow> error + (string \<rightharpoonup> string)) \<Rightarrow> string \<Rightarrow> world \<Rightarrow> string option \<times> world"
where
  "method2 e model video_url w =
     (let w1 = record_call (GetAudioOnly video_url) w in
      case get_audio_only e video_url of
        Inl e2 \<Rightarrow> method2_failed e w1
      | Inr None \<Rightarrow> (None, w1)
      | Inr (Some audio_stream) \<Rightarrow>
          (let w2 = record_call (Download temp_audio) w1 in
           case audio_stream of
             DownloadFailed e2 partial \<Rightarrow>
               method2_failed e
                 (if partial then w2\<lparr>files := insert temp_audio (files w2)\<rparr> else w2)
           | Downloaded \<Rightarrow>
               (let audio_file = temp_audio;
                    w3 = w2\<lparr>files := insert audio_file (files w2)\<rparr>;
                    w4 = record_call (Transcribe audio_file) w3 in
                case model audio_file of
                  Inl e2 \<Rightarrow> method2_failed e w4
                | Inr result \<Rightarrow>
                    (case result ''text'' of
                       None \<Rightarrow> method2_failed e w4
                     | Some transcript_text \<Rightarrow>
                         (let (r, w5) = os_remove e audio_file w4 in
                          (Some transcript_text, w5))))))"

definition get_transcript :: "env \<Rightarrow> string \<Rightarrow> world \<Rightarrow> string option \<times> world" where
  "get_transcript e video_url w =
     (let video_id = video_id_of video_url;
          w1 = record_call (Fetch video_id languages) w in
      case fetch e video_id languages of
        Inr transcript_list \<Rightarrow> (Some (join '' '' transcript_list), w1)
      | Inl e1 \<Rightarrow>
          (case whisper_model e of
             None \<Rightarrow> (None, w1)
           | Some model \<Rightarrow> method2 e model video_url w1))"


section \<open>The insight extractor: \<open>get_insights\<close>\<close>

text \<open>
  The values stored in the returned dictionary: Python's \<open>None\<close>, the nested
  \<open>{"label": ..., "score": ...}\<close> dictionary, a summary text, or a list of
  (text, label) tuples.

  The polarity is a finite double; it is modelled by the rational number it denotes.
  The literal \<open>0.1\<close> of the source is a double too: the one nearest to one tenth,
  \<open>3602879701896397 / 2^55\<close>, which is slightly more than one tenth; \<open>-0.1\<close> is
  its negation. \<open>round(x, n)\<close> on a float rounds the exact value of \<open>x\<close> to \<open>n\<close>
  decimal places, ties to the even neighbour; the model keeps the decimal result and
  leaves out its final conversion back to the nearest double.
\<close>

datatype insight =
    NoneValue
  | SentimentDict string rat
  | Text string
  | Entities "(string \<times> string) list"

type_synonym insights = "string \<rightharpoonup> insight"

definition round_half_even :: "rat \<Rightarrow> int" where
  "round_half_even q =
     (let f = \<lfloor>q\<rfloor>; d = q - of_int f in
      if d < 1 / 2 then f
      else if 1 / 2 < d then f + 1
      else if even f then f else f + 1)"

definition py_round :: "rat \<Rightarrow> nat \<Rightarrow> rat" where
  "py_round x ndigits = of_int (round_half_even (x * 10 ^ ndigits)) / 10 ^ ndigits"

definition literal_0_1 :: rat where
  "literal_0_1 = 3602879701896397 / 2 ^ 55"

definition sentiment_label :: "rat \<Rightarrow> string" where
  "sentiment_label polarity =
     (if polarity > literal_0_1 then ''Positive''
      else if polarity < - literal_0_1 then ''Negative''
      else ''Neutral'')"

text \<open>Insight 1: sentiment.\<close>

definition insight_sentiment :: "env \<Rightarrow> string \<Rightarrow> insights \<times> world \<Rightarrow> insights \<times> world" where
  "insight_sentiment e full_transcript s =
     (let (insights, w) = s;
          w1 = record_call (TextBlob full_transcript) w in
      case textblob_polarity e full_transcript of
        Inr polarity \<Rightarrow>
          (insights(''sentiment'' \<mapsto> SentimentDict (sentiment_label polarity) (py_round polarity 3)), w1)
      | Inl err \<Rightarrow> (insights(''sentiment'' \<mapsto> NoneValue), w1))"

text \<open>
  Insight 2: summarization of the first 1000 characters.
  \<open>summary_result[0]["summary_text"]\<close> raises inside the \<open>try\<close> when the list is empty
  or the key is missing.
\<close>

definition insight_summary :: "env \<Rightarrow> string \<Rightarrow> insights \<times> world \<Rightarrow> insights \<times> world" where
  "insight_summary e full_transcript s =
     (let (insights, w) = s in
      case summarizer e of
        None \<Rightarrow> (insights(''summary'' \<mapsto> NoneValue), w)
      | Some model \<Rightarrow>
          (let transcript_snippet = take 1000 full_transcript;
               w1 = record_call (Summarize transcript_snippet 150 30 False) w in
           case model transcript_snippet 150 30 False of
             Inl err \<Rightarrow> (insights(''summary'' \<mapsto> NoneValue), w1)
           | Inr [] \<Rightarrow> (insights(''summary'' \<mapsto> NoneValue), w1)
           | Inr (first # rest) \<Rightarrow>
               (case first ''summary_text'' of
                  None \<Rightarrow> (insights(''summary'' \<mapsto> NoneValue), w1)
                | Some summary_text \<Rightarrow> (insights(''summary'' \<mapsto> Text summary_text), w1))))"

text \<open>Insight 3: named entities. The two loops of the source, with their accumulators.\<close>

definition kept_labels :: "string list" where
  "kept_labels = [''PERSON'', ''ORG'', ''GPE'', ''PRODUCT'']"

fun collect_entities ::
  "(string \<times> string) list \<Rightarrow> (string \<times> string) list \<Rightarrow> (string \<times> string) list"
where
  "collect_entities [] entities = entities"
| "collect_entities (ent # ents) entities =
     (if snd ent \<in> set kept_labels then collect_entities ents (entities @ [ent])
      else collect_entities ents entities)"

fun unique_loop :: "'a list \<Rightarrow> 'a set \<Rightarrow> 'a list \<Rightarrow> 'a list" where
  "unique_loop [] seen unique_entities = unique_entities"
| "unique_loop (entity # rest) seen unique_entities =
     (if entity \<notin> seen then unique_loop rest (insert entity seen) (unique_entities @ [entity])
      else unique_loop rest seen unique_entities)"

definition extract_entities :: "(string \<times> string) list \<Rightarrow> (string \<times> string) list" where
  "extract_entities ents = unique_loop (collect_entities ents []) {} []"

definition insight_entities :: "env \<Rightarrow> string \<Rightarrow> insights \<times> world \<Rightarrow> insights \<times> world" where
  "insight_entities e full_transcript s =
     (let (insights, w) = s in
      case nlp e of
        None \<Rightarrow> (insights(''entities'' \<mapsto> Entities []), w)
      | Some model \<Rightarrow>
          (let w1 = record_call (Nlp full_transcript) w in
           case model full_transcript of
             Inl err \<Rightarrow> (insights(''entities'' \<mapsto> Entities []), w1)
           | Inr ents \<Rightarrow> (insights(''entities'' \<mapsto> Entities (extract_entities ents)), w1)))"

text \<open>\<open>not full_transcript\<close> holds for \<open>None\<close> and for the empty string.\<close>

definition get_insights :: "env \<Rightarrow> string option \<Rightarrow> world \<Rightarrow> insights \<times> world" where
  "get_insights e full_transcript w =
     (case full_transcript of
        None \<Rightarrow> (Map.empty, w)
      | Some [] \<Rightarrow> (Map.empty, w)
      | Some (c # cs) \<Rightarrow>
          insight_entities e (c # cs)
            (insight_summary e (c # cs)
              (insight_sentiment e (c # cs) (Map.empty, w))))"

text \<open>
  The reads of the caller in the main loop: \<open>insights.get('sentiment')\<close>,
  \<open>insights.get('summary')\<close> and \<open>insights.get('entities', [])\<close>.
\<close>

definition get_sentiment :: "insights \<Rightarrow> (string \<times> rat) option" where
  "get_sentiment b = (case b ''sentiment'' of Some (SentimentDict l s) \<Rightarrow> Some (l, s) | _ \<Rightarrow> None)"

definition get_summary :: "insights \<Rightarrow> string option" where
  "get_summary b = (case b ''summary'' of Some (Text t) \<Rightarrow> Some t | _ \<Rightarrow> None)"

definition get_entities :: "insights \<Rightarrow> (string \<times> string) list" where
  "get_entities b = (case b ''entities'' of Some (Entities es) \<Rightarrow> es | _ \<Rightarrow> [])"

text \<open>Position of the first occurrence of an element in a list (its length if there is none).\<close>

fun first_index :: "'a list \<Rightarrow> 'a \<Rightarrow> nat" where
  "first_index [] x = 0"
| "first_index (y # ys) x = (if y = x then 0 else Suc (first_index ys x))"

section \<open>The paper fetcher: \<open>fetch_paper_metadata\<close>\<close>

text \<open>
  \<open>session.get(url, timeout=...)\<close> returns a response or raises; every exception that
  the HTTP library raises for a request is a RequestException, so the failure carries
  only its message. \<open>response.json()\<close> decodes the body or raises: a RequestException
  in recent versions of the library, a plain ValueError in older ones.

  The decoded body can be any Python value and the loop never looks inside it, so its
  type is a parameter \<open>'j\<close> of the response and of the service. The concrete services
  further down use a datatype of JSON values; a JSON number is an integer or a float,
  the float modelled by the rational it denotes.
\<close>

datatype json =
    JNull
  | JBool bool
  | JInt int
  | JFloat rat
  | JString string
  | JArray "json list"
  | JObject "(string \<times> json) list"











section \<open>Observations on a run\<close>

text \<open>The external calls made between two worlds, and the calls made after the download.\<close>

definition new_calls :: "world \<Rightarrow> world \<Rightarrow> call list" where
  "new_calls w w' = drop (length (calls w)) (calls w')"

definition after_download :: "call list \<Rightarrow> call list" where
  "after_download cs = tl (dropWhile (\<lambda>c. c \<noteq> Download temp_audio) cs)"

text \<open>
  Best-effort cleanup of a run \<open>r\<close> started in world \<open>w\<close>: if the run asked for the
  download, then on the success path a removal of the temporary file follows it; on the
  failure path the existence check follows it, and either a removal follows too or the
  file is not there at the end; and whenever the system does not refuse the removal,
  the file is gone at the end.
\<close>

definition cleanup_attempted :: "env \<Rightarrow> world \<Rightarrow> string option \<times> world \<Rightarrow> bool" where
  "cleanup_attempted e w r =
     (let new = new_calls w (snd r) in
      Download temp_audio \<in> set new \<longrightarrow>
        (fst r \<noteq> None \<longrightarrow> Remove temp_audio \<in> set (after_download new))
      \<and> (fst r = None \<longrightarrow>
           Exists temp_audio \<in> set (after_download new)
           \<and> (Remove temp_audio \<in> set (after_download new) \<or> temp_audio \<notin> files (snd r)))
      \<and> (remove_denied e temp_audio = None \<longrightarrow> temp_audio \<notin> files (snd r)))"

section \<open>Concrete collaborators\<close>

text \<open>
  One environment in which captions are disabled, the audio downloads, the
  speech-to-text model answers, and all three analysis models are loaded; one world
  with no files and no calls yet; and two HTTP services.
\<close>

definition example_env :: env where
  "example_env =
     \<lparr>fetch = (\<lambda>video_id langs. Inl (OtherException ''TranscriptsDisabled'')),
      get_audio_only = (\<lambda>url. Inr (Some Downloaded)),
      whisper_model = Some (\<lambda>path. Inr [''text'' \<mapsto> ''a trip to Paris'']),
      remove_denied = (\<lambda>path. None),
      textblob_polarity = (\<lambda>text. Inr (7 / 16)),
      summarizer = Some (\<lambda>text max_length min_length do_sample.
                          Inr [[''summary_text'' \<mapsto> ''A trip.'']]),
      nlp = Some (\<lambda>text. Inr [(''Paris'', ''GPE''), (''today'', ''DATE''),
                                (''John Smith'', ''PERSON''), (''Paris'', ''GPE'')])\<rparr>"

definition example_world :: world where
  "example_world = \<lparr>files = {}, calls = []\<rparr>"

definition example_url :: string where
  "example_url = ''https://www.youtube.com/watch?v=abc123''"





section \<open>Properties of the string helpers\<close>

lemma split_on_absent: "c \<notin> set s \<Longrightarrow> split_on c s = [s]"
  by (induction s) auto

lemma length_split_on: "length (split_on c s) = Suc (length (filter (\<lambda>x. x = c) s))"
  by (induction s) (auto split: list.splits)

lemma last_split_on_Cons:
  assumes "c \<in> set s"
  shows "last (split_on c (a # s)) = last (split_on c s)"
proof -
  from assms have "filter (\<lambda>x. x = c) s \<noteq> []" by (simp add: filter_empty_conv)
  then have "length (split_on c s) \<ge> 2"
    by (cases "filter (\<lambda>x. x = c) s") (simp_all add: length_split_on)
  then obtain p q ps where "split_on c s = p # q # ps"
    by (cases "split_on c s"; cases "tl (split_on c s)") auto
  then show ?thesis by simp
qed

lemma last_split_on_suffix:
  "c \<notin> set t \<Longrightarrow> last (split_on c (pre @ c # t)) = t"
proof (induction pre)
  case Nil
  then show ?case by (simp add: split_on_absent)
next
  case (Cons a pre)
  have "c \<in> set (pre @ c # t)" by simp
  then have "last (split_on c (a # (pre @ c # t))) = last (split_on c (pre @ c # t))"
    by (rule last_split_on_Cons)
  with Cons show ?case by simp
qed

lemma last_split_on_present:
  assumes "c \<in> set s"
  shows "(\<exists>pre. s = pre @ c # last (split_on c s)) \<and> c \<notin> set (last (split_on c s))"
proof -
  from assms obtain pre t where s: "s = pre @ c # t" and t: "c \<notin> set t"
    using split_list_last by metis
  then have l: "last (split_on c s) = t" by (simp add: last_split_on_suffix)
  show ?thesis unfolding l using s t by blast
qed

section \<open>Properties of the transcript resolver\<close>

lemma method2_failed_result:
  "method2_failed e w =
     (None,
      if temp_audio \<in> files w then
        (if remove_denied e temp_audio = None
         then w\<lparr>files := files w - {temp_audio},
                calls := calls w @ [Exists temp_audio, Remove temp_audio]\<rparr>
         else w\<lparr>calls := calls w @ [Exists temp_audio, Remove temp_audio]\<rparr>)
      else w\<lparr>calls := calls w @ [Exists temp_audio]\<rparr>)"
  by (auto simp: method2_failed_def os_path_exists_def os_remove_def record_call_def Let_def
           split: option.splits)

lemma os_remove_present:
  "p \<in> files w \<Longrightarrow> os_remove e p w =
     (if remove_denied e p = None
      then (Inr (), w\<lparr>files := files w - {p}, calls := calls w @ [Remove p]\<rparr>)
      else (Inl (the (remove_denied e p)), w\<lparr>calls := calls w @ [Remove p]\<rparr>))"
  by (auto simp: os_remove_def record_call_def Let_def split: option.splits)

lemma method2_calls:
  "\<exists>rest. calls (snd (method2 e m u w)) = calls w @ GetAudioOnly u # rest"
  by (auto simp: method2_def method2_failed_result os_remove_def record_call_def Let_def
           split: sum.splits option.splits download_result.splits prod.splits)

lemma get_transcript_calls:
  "\<exists>rest. calls (snd (get_transcript e url w)) = calls w @ Fetch (video_id_of url) languages # rest"
proof (cases "fetch e (video_id_of url) languages")
  case (Inr segs)
  then show ?thesis by (simp add: get_transcript_def record_call_def Let_def)
next
  case (Inl err)
  show ?thesis
  proof (cases "whisper_model e")
    case None
    with Inl show ?thesis by (simp add: get_transcript_def record_call_def Let_def)
  next
    case (Some m)
    obtain rest where
      "calls (snd (method2 e m url (record_call (Fetch (video_id_of url) languages) w)))
        = calls (record_call (Fetch (video_id_of url) languages) w) @ GetAudioOnly url # rest"
      using method2_calls by blast
    with Inl Some show ?thesis by (simp add: get_transcript_def record_call_def Let_def)
  qed
qed

lemma method2_cleanup:
  "cleanup_attempted e w (method2 e m u (record_call (Fetch v l) w))"
proof (cases "get_audio_only e u")
  case (Inl err)
  then show ?thesis
    by (simp add: cleanup_attempted_def method2_def method2_failed_result record_call_def
          new_calls_def after_download_def Let_def)
next
  case (Inr s)
  show ?thesis
  proof (cases s)
    case None
    with Inr show ?thesis
      by (simp add: cleanup_attempted_def method2_def record_call_def new_calls_def
            after_download_def Let_def)
  next
    case stream: (Some d)
    show ?thesis
    proof (cases d)
      case (DownloadFailed err partial)
      with Inr stream show ?thesis
        by (simp add: cleanup_attempted_def method2_def method2_failed_result record_call_def
              new_calls_def after_download_def Let_def)
    next
      case Downloaded
      show ?thesis
      proof (cases "m temp_audio")
        case (Inl err)
        with Inr stream Downloaded show ?thesis
          by (simp add: cleanup_attempted_def method2_def method2_failed_result record_call_def
                new_calls_def after_download_def Let_def)
      next
        case res: (Inr result)
        show ?thesis
        proof (cases "result ''text''")
          case None
          with Inr stream Downloaded res show ?thesis
            by (simp add: cleanup_attempted_def method2_def method2_failed_result record_call_def
                  new_calls_def after_download_def Let_def)
        next
          case (Some t)
          with Inr stream Downloaded res show ?thesis
            by (simp add: cleanup_attempted_def method2_def os_remove_present record_call_def
                  new_calls_def after_download_def Let_def)
        qed
      qed
    qed
  qed
qed

lemma method2_swallows:
  "fst (method2 (e\<lparr>remove_denied := d\<rparr>) m u w) = fst (method2 e m u w)"
  by (simp add: method2_def method2_failed_result os_remove_def record_call_def Let_def
        split: sum.splits option.splits download_result.splits)

text \<open>
  C8. The identifier handed to the captions service is derived from the reference alone:
  if the reference contains \<open>=\<close>, it is what follows the last \<open>=\<close>; otherwise, if it
  contains \<open>/\<close>, it is what follows the last \<open>/\<close>; a reference with neither is used
  whole. The first external call of every run is the captions request for that identifier.
\<close>

theorem video_id_after_last_separator:
  "(CHR ''='' \<in> set url \<longrightarrow>
      (\<exists>pre. url = pre @ CHR ''='' # video_id_of url) \<and> CHR ''='' \<notin> set (video_id_of url))
   \<and> (CHR ''='' \<notin> set url \<and> CHR ''/'' \<in> set url \<longrightarrow>
      (\<exists>pre. url = pre @ CHR ''/'' # video_id_of url) \<and> CHR ''/'' \<notin> set (video_id_of url))
   \<and> (CHR ''='' \<notin> set url \<and> CHR ''/'' \<notin> set url \<longrightarrow> video_id_of url = url)
   \<and> (\<exists>rest. calls (snd (get_transcript e url w)) =
               calls w @ Fetch (video_id_of url) languages # rest)"
proof (intro conjI impI)
  assume "CHR ''='' \<in> set url"
  then show "\<exists>pre. url = pre @ CHR ''='' # video_id_of url"
    and "CHR ''='' \<notin> set (video_id_of url)"
    using last_split_on_present [of "CHR ''=''" url] by (simp_all add: video_id_of_def)
next
  assume "CHR ''='' \<notin> set url \<and> CHR ''/'' \<in> set url"
  then show "\<exists>pre. url = pre @ CHR ''/'' # video_id_of url"
    and "CHR ''/'' \<notin> set (video_id_of url)"
    using last_split_on_present [of "CHR ''/''" url] by (simp_all add: video_id_of_def)
next
  assume "CHR ''='' \<notin> set url \<and> CHR ''/'' \<notin> set url"
  then show "video_id_of url = url" by (simp add: video_id_of_def split_on_absent)
next
  show "\<exists>rest. calls (snd (get_transcript e url w)) =
               calls w @ Fetch (video_id_of url) languages # rest"
    by (rule get_transcript_calls)
qed

theorem video_id_after_last_separator_witness:
  "CHR ''='' \<in> set ''https://www.youtube.com/watch?v=abc123''
   \<and> video_id_of ''https://www.youtube.com/watch?v=abc123'' = ''abc123''
   \<and> CHR ''='' \<notin> set ''https://youtu.be/xyz789'' \<and> CHR ''/'' \<in> set ''https://youtu.be/xyz789''
   \<and> (\<exists>pre. ''https://youtu.be/xyz789'' = pre @ CHR ''/'' # video_id_of ''https://youtu.be/xyz789'')
   \<and> CHR ''='' \<notin> set ''xyz789'' \<and> CHR ''/'' \<notin> set ''xyz789''
   \<and> video_id_of ''xyz789'' = ''xyz789''"
proof -
  have a: "CHR ''='' \<in> set ''https://www.youtube.com/watch?v=abc123''" by simp
  have b: "CHR ''='' \<notin> set ''https://youtu.be/xyz789'' \<and> CHR ''/'' \<in> set ''https://youtu.be/xyz789''"
    by simp
  have c: "CHR ''='' \<notin> set ''xyz789'' \<and> CHR ''/'' \<notin> set ''xyz789''" by simp
  have "video_id_of ''https://www.youtube.com/watch?v=abc123'' = ''abc123''"
    by (simp add: video_id_of_def)
  moreover have "\<exists>pre. ''https://youtu.be/xyz789'' = pre @ CHR ''/'' # video_id_of ''https://youtu.be/xyz789''"
    using video_id_after_last_separator [of "''https://youtu.be/xyz789''" example_env example_world] b
    by blast
  moreover have "video_id_of ''xyz789'' = ''xyz789''"
    using video_id_after_last_separator [of "''xyz789''" example_env example_world] c by blast
  moreover have "\<exists>pre. ''https://www.youtube.com/watch?v=abc123'' =
      pre @ CHR ''='' # video_id_of ''https://www.youtube.com/watch?v=abc123''"
    using video_id_after_last_separator [of "''https://www.youtube.com/watch?v=abc123''" example_env example_world] a
    by blast
  ultimately show ?thesis using a b c by blast
qed



text \<open>
  C6. When the captions request fails and either the speech-to-text model is not loaded
  or the video has no audio-only stream, the run returns no transcript, asks for no
  download and no transcription, and leaves the files as they were: a temporary audio
  file that was absent before the run is absent after it.
\<close>

theorem no_fallback_means_no_transcript_no_file:
  assumes "fetch e (video_id_of url) languages = Inl err"
      and "whisper_model e = None \<or> get_audio_only e url = Inr None"
  shows "fst (get_transcript e url w) = None
       \<and> files (snd (get_transcript e url w)) = files w
       \<and> (\<forall>c \<in> set (new_calls w (snd (get_transcript e url w))).
            c \<noteq> Download temp_audio \<and> c \<noteq> Transcribe temp_audio)
       \<and> (temp_audio \<notin> files w \<longrightarrow> temp_audio \<notin> files (snd (get_transcript e url w)))"
  using assms
  by (cases "whisper_model e")
     (auto simp: get_transcript_def method2_def record_call_def new_calls_def Let_def)

theorem no_fallback_means_no_transcript_no_file_witness:
  "fetch (example_env\<lparr>whisper_model := None\<rparr>) (video_id_of example_url) languages
      = Inl (OtherException ''TranscriptsDisabled'')
   \<and> whisper_model (example_env\<lparr>whisper_model := None\<rparr>) = None
   \<and> fst (get_transcript (example_env\<lparr>whisper_model := None\<rparr>) example_url example_world) = None
   \<and> temp_audio \<notin> files example_world
   \<and> temp_audio \<notin> files (snd (get_transcript (example_env\<lparr>whisper_model := None\<rparr>)
                                   example_url example_world))
   \<and> get_audio_only (example_env\<lparr>get_audio_only := \<lambda>u. Inr None\<rparr>) example_url = Inr None
   \<and> fst (get_transcript (example_env\<lparr>get_audio_only := \<lambda>u. Inr None\<rparr>)
            example_url example_world) = None"
proof -
  have f1: "fetch (example_env\<lparr>whisper_model := None\<rparr>) (video_id_of example_url) languages
      = Inl (OtherException ''TranscriptsDisabled'')"
    by (simp add: example_env_def)
  have w1: "whisper_model (example_env\<lparr>whisper_model := None\<rparr>) = None
      \<or> get_audio_only (example_env\<lparr>whisper_model := None\<rparr>) example_url = Inr None"
    by simp
  have f2: "fetch (example_env\<lparr>get_audio_only := \<lambda>u. Inr None\<rparr>) (video_id_of example_url) languages
      = Inl (OtherException ''TranscriptsDisabled'')"
    by (simp add: example_env_def)
  have w2: "whisper_model (example_env\<lparr>get_audio_only := \<lambda>u. Inr None\<rparr>) = None
      \<or> get_audio_only (example_env\<lparr>get_audio_only := \<lambda>u. Inr None\<rparr>) example_url = Inr None"
    by simp
  have t: "temp_audio \<notin> files example_world" by (simp add: example_world_def)
  show ?thesis
    using no_fallback_means_no_transcript_no_file [OF f1 w1, of example_world]
      no_fallback_means_no_transcript_no_file [OF f2 w2, of example_world] f1 t
    by simp
qed

text \<open>
  C7. Every run that reaches the audio download attempts to clean up afterwards:
  on the success path it calls the removal of the temporary file; on the failure path
  it checks for the file and calls the removal when the file is there; whenever the
  system does not refuse the removal, the file is absent at the end. Whether the
  removal fails makes no difference to what the run returns.
\<close>

theorem cleanup_best_effort:
  "cleanup_attempted e w (get_transcript e url w)
   \<and> fst (get_transcript (e\<lparr>remove_denied := d\<rparr>) url w) = fst (get_transcript e url w)"
proof
  show "cleanup_attempted e w (get_transcript e url w)"
  proof (cases "fetch e (video_id_of url) languages")
    case (Inr segs)
    then show ?thesis
      by (simp add: cleanup_attempted_def get_transcript_def record_call_def new_calls_def Let_def)
  next
    case (Inl err)
    show ?thesis
    proof (cases "whisper_model e")
      case None
      with Inl show ?thesis
        by (simp add: cleanup_attempted_def get_transcript_def record_call_def new_calls_def Let_def)
    next
      case (Some m)
      with Inl show ?thesis by (simp add: get_transcript_def method2_cleanup Let_def)
    qed
  qed
  show "fst (get_transcript (e\<lparr>remove_denied := d\<rparr>) url w) = fst (get_transcript e url w)"
    by (simp add: get_transcript_def method2_swallows Let_def split: sum.splits option.splits)
qed

theorem cleanup_best_effort_witness:
  "Download temp_audio \<in> set (new_calls example_world
       (snd (get_transcript example_env example_url example_world)))
   \<and> fst (get_transcript example_env example_url example_world) \<noteq> None
   \<and> Remove temp_audio \<in> set (after_download (new_calls example_world
       (snd (get_transcript example_env example_url example_world))))
   \<and> remove_denied example_env temp_audio = None
   \<and> temp_audio \<notin> files (snd (get_transcript example_env example_url example_world))
   \<and> Download temp_audio \<in> set (new_calls example_world
       (snd (get_transcript (example_env\<lparr>whisper_model := Some (\<lambda>p. Inl (OtherException ''RuntimeError''))\<rparr>)
              example_url example_world)))
   \<and> fst (get_transcript (example_env\<lparr>whisper_model := Some (\<lambda>p. Inl (OtherException ''RuntimeError''))\<rparr>)
              example_url example_world) = None
   \<and> Exists temp_audio \<in> set (after_download (new_calls example_world
       (snd (get_transcript (example_env\<lparr>whisper_model := Some (\<lambda>p. Inl (OtherException ''RuntimeError''))\<rparr>)
              example_url example_world))))"
proof -
  have v: "video_id_of example_url = ''abc123''"
    by (simp add: video_id_of_def example_url_def)
  have r: "get_transcript example_env example_url example_world =
      (Some ''a trip to Paris'',
       \<lparr>files = {}, calls = [Fetch ''abc123'' languages, GetAudioOnly example_url,
          Download temp_audio, Transcribe temp_audio, Remove temp_audio]\<rparr>)"
    by (simp add: get_transcript_def method2_def os_remove_present record_call_def v
          example_env_def example_world_def Let_def)
  have r': "get_transcript (example_env\<lparr>whisper_model := Some (\<lambda>p. Inl (OtherException ''RuntimeError''))\<rparr>)
              example_url example_world =
      (None,
       \<lparr>files = {}, calls = [Fetch ''abc123'' languages, GetAudioOnly example_url,
          Download temp_audio, Transcribe temp_audio, Exists temp_audio, Remove temp_audio]\<rparr>)"
    by (simp add: get_transcript_def method2_def method2_failed_result record_call_def v
          example_env_def example_world_def Let_def)
  have d: "remove_denied example_env temp_audio = None" by (simp add: example_env_def)
  have n: "Download temp_audio \<in> set (new_calls example_world
       (snd (get_transcript example_env example_url example_world)))"
    unfolding r by (simp add: new_calls_def example_world_def)
  have n': "Download temp_audio \<in> set (new_calls example_world
       (snd (get_transcript (example_env\<lparr>whisper_model := Some (\<lambda>p. Inl (OtherException ''RuntimeError''))\<rparr>)
              example_url example_world)))"
    unfolding r' by (simp add: new_calls_def example_world_def)
  have s: "fst (get_transcript example_env example_url example_world) \<noteq> None"
    by (simp add: r)
  have s': "fst (get_transcript (example_env\<lparr>whisper_model := Some (\<lambda>p. Inl (OtherException ''RuntimeError''))\<rparr>)
              example_url example_world) = None"
    by (simp add: r')
  show ?thesis
    using cleanup_best_effort [of example_env example_world example_url "\<lambda>p. None"]
      cleanup_best_effort [of "example_env\<lparr>whisper_model := Some (\<lambda>p. Inl (OtherException ''RuntimeError''))\<rparr>"
        example_world example_url "\<lambda>p. None"]
      n n' s s' d
    unfolding cleanup_attempted_def Let_def by blast
qed

section \<open>Properties of the insight extractor\<close>

lemma get_insights_nonempty:
  "t \<noteq> [] \<Longrightarrow> get_insights e (Some t) w =
     insight_entities e t (insight_summary e t (insight_sentiment e t (Map.empty, w)))"
  by (cases t) (simp_all add: get_insights_def)

lemma sentiment_field:
  "t \<noteq> [] \<Longrightarrow> fst (get_insights e (Some t) w) ''sentiment'' =
     Some (case textblob_polarity e t of
             Inl err \<Rightarrow> NoneValue
           | Inr p \<Rightarrow> SentimentDict (sentiment_label p) (py_round p 3))"
  by (simp add: get_insights_nonempty insight_entities_def insight_summary_def
        insight_sentiment_def Let_def split: sum.splits option.splits list.splits)

lemma summary_field:
  "t \<noteq> [] \<Longrightarrow> fst (get_insights e (Some t) w) ''summary'' =
     Some (case summarizer e of
             None \<Rightarrow> NoneValue
           | Some m \<Rightarrow>
               (case m (take 1000 t) 150 30 False of
                  Inl err \<Rightarrow> NoneValue
                | Inr [] \<Rightarrow> NoneValue
                | Inr (first # rest) \<Rightarrow>
                    (case first ''summary_text'' of None \<Rightarrow> NoneValue | Some s \<Rightarrow> Text s)))"
  by (simp add: get_insights_nonempty insight_entities_def insight_summary_def
        insight_sentiment_def Let_def split: sum.splits option.splits list.splits)

lemma entities_field:
  "t \<noteq> [] \<Longrightarrow> fst (get_insights e (Some t) w) ''entities'' =
     Some (Entities (case nlp e of
             None \<Rightarrow> []
           | Some m \<Rightarrow> (case m t of Inl err \<Rightarrow> [] | Inr ents \<Rightarrow> extract_entities ents)))"
  by (simp add: get_insights_nonempty insight_entities_def insight_summary_def
        insight_sentiment_def Let_def split: sum.splits option.splits list.splits)

lemma other_field:
  "t \<noteq> [] \<Longrightarrow> k \<noteq> ''sentiment'' \<Longrightarrow> k \<noteq> ''summary'' \<Longrightarrow> k \<noteq> ''entities'' \<Longrightarrow>
   fst (get_insights e (Some t) w) k = None"
  by (simp add: get_insights_nonempty insight_entities_def insight_summary_def
        insight_sentiment_def Let_def split: sum.splits option.splits list.splits)

lemma insights_world:
  "t \<noteq> [] \<Longrightarrow> snd (get_insights e (Some t) w) =
     w\<lparr>calls := calls w @ [TextBlob t]
          @ (case summarizer e of None \<Rightarrow> [] | Some m \<Rightarrow> [Summarize (take 1000 t) 150 30 False])
          @ (case nlp e of None \<Rightarrow> [] | Some m \<Rightarrow> [Nlp t])\<rparr>"
  by (simp add: get_insights_nonempty insight_entities_def insight_summary_def
        insight_sentiment_def record_call_def Let_def split: sum.splits option.splits list.splits)

lemma bundle_eqI:
  assumes "t \<noteq> []"
    and "fst (get_insights e' (Some t) w) ''sentiment'' = b ''sentiment''"
    and "fst (get_insights e' (Some t) w) ''summary'' = b ''summary''"
    and "fst (get_insights e' (Some t) w) ''entities'' = b ''entities''"
    and "\<And>k. k \<noteq> ''sentiment'' \<Longrightarrow> k \<noteq> ''summary'' \<Longrightarrow> k \<noteq> ''entities'' \<Longrightarrow> b k = None"
  shows "fst (get_insights e' (Some t) w) = b"
proof (rule ext)
  fix k
  show "fst (get_insights e' (Some t) w) k = b k"
    using assms other_field [OF assms(1), of k e' w]
    by (cases "k = ''sentiment''"; cases "k = ''summary''"; cases "k = ''entities''") simp_all
qed

subsection \<open>Rounding and thresholds\<close>

lemma round_half_even_near: "\<bar>of_int (round_half_even q) - q\<bar> \<le> 1 / 2"
proof -
  define f where "f = \<lfloor>q\<rfloor>"
  define d where "d = q - of_int f"
  have d: "0 \<le> d" "d < 1"
    using floor_correct [of q] by (simp_all add: d_def f_def)
  have r: "round_half_even q =
      (if d < 1 / 2 then f else if 1 / 2 < d then f + 1 else if even f then f else f + 1)"
    by (simp add: round_half_even_def Let_def f_def d_def)
  have "round_half_even q = f \<and> d \<le> 1 / 2 \<or> round_half_even q = f + 1 \<and> 1 / 2 \<le> d"
    unfolding r by auto
  then show ?thesis
  proof
    assume "round_half_even q = f \<and> d \<le> 1 / 2"
    then show ?thesis using d by (simp add: d_def abs_if)
  next
    assume "round_half_even q = f + 1 \<and> 1 / 2 \<le> d"
    then show ?thesis using d by (simp add: d_def abs_if)
  qed
qed

lemma py_round_3_near: "\<bar>py_round p 3 - p\<bar> \<le> 1 / 2000"
proof -
  have "\<bar>of_int (round_half_even (p * 1000)) - p * 1000\<bar> \<le> 1 / 2"
    by (rule round_half_even_near)
  then have "\<bar>(of_int (round_half_even (p * 1000)) - p * 1000) / 1000\<bar> \<le> (1 / 2) / 1000"
    by (simp only: abs_divide) (simp add: divide_le_cancel)
  then show ?thesis by (simp add: py_round_def diff_divide_distrib)
qed

lemma py_round_3_decimal: "\<exists>k::int. py_round p 3 = of_int k / 1000"
  by (auto simp: py_round_def)

text \<open>
  The literal is a double (a 53-bit significand times a power of two) and lies within
  half a unit in the last place of one tenth, so it is the double nearest to one tenth.
\<close>

lemma literal_0_1_is_nearest_double:
  "literal_0_1 = 7205759403792794 / 2 ^ 56
   \<and> (2::int) ^ 52 \<le> 7205759403792794 \<and> (7205759403792794::int) < 2 ^ 53
   \<and> \<bar>literal_0_1 - 1 / 10\<bar> < (1 / 2 ^ 56) / 2
   \<and> 1 / 10 < literal_0_1"
  by (simp add: literal_0_1_def)

lemma sentiment_label_iff:
  "(sentiment_label p = ''Positive'' \<longleftrightarrow> p > literal_0_1)
 \<and> (sentiment_label p = ''Negative'' \<longleftrightarrow> p < - literal_0_1)
 \<and> (sentiment_label p = ''Neutral'' \<longleftrightarrow> \<not> p > literal_0_1 \<and> \<not> p < - literal_0_1)"
proof -
  have "0 < literal_0_1" by (simp add: literal_0_1_def)
  then show ?thesis by (auto simp: sentiment_label_def)
qed

text \<open>
  C2. For a non-empty transcript whose polarity is \<open>p\<close>, the sentiment entry of the
  bundle is a label with a score: the label is Positive exactly when \<open>p > 0.1\<close>,
  Negative exactly when \<open>p < -0.1\<close> and Neutral exactly when neither holds, where
  \<open>0.1\<close> is the double that the source's literal denotes; the score is \<open>p\<close> rounded
  to three decimal places, that is a whole number of thousandths at most half a
  thousandth away from \<open>p\<close>.
\<close>

theorem sentiment_label_and_score:
  assumes "t \<noteq> []" and "textblob_polarity e t = Inr p"
  shows "\<exists>label score.
           fst (get_insights e (Some t) w) ''sentiment'' = Some (SentimentDict label score)
         \<and> (label = ''Positive'' \<longleftrightarrow> p > literal_0_1)
         \<and> (label = ''Negative'' \<longleftrightarrow> p < - literal_0_1)
         \<and> (label = ''Neutral'' \<longleftrightarrow> \<not> p > literal_0_1 \<and> \<not> p < - literal_0_1)
         \<and> score = py_round p 3
         \<and> (\<exists>k::int. score = of_int k / 1000)
         \<and> \<bar>score - p\<bar> \<le> 1 / 2000"
proof -
  have "fst (get_insights e (Some t) w) ''sentiment'' =
        Some (SentimentDict (sentiment_label p) (py_round p 3))"
    using assms by (simp add: sentiment_field)
  then show ?thesis
    using sentiment_label_iff [of p] py_round_3_decimal [of p] py_round_3_near [of p]
    by blast
qed

theorem sentiment_label_and_score_witness:
  "''a trip to Paris'' \<noteq> []
   \<and> textblob_polarity example_env ''a trip to Paris'' = Inr (7 / 16)
   \<and> fst (get_insights example_env (Some ''a trip to Paris'') example_world) ''sentiment''
       = Some (SentimentDict ''Positive'' (438 / 1000))
   \<and> textblob_polarity (example_env\<lparr>textblob_polarity := \<lambda>text. Inr literal_0_1\<rparr>)
         ''a trip to Paris'' = Inr literal_0_1
   \<and> fst (get_insights (example_env\<lparr>textblob_polarity := \<lambda>text. Inr literal_0_1\<rparr>)
            (Some ''a trip to Paris'') example_world) ''sentiment''
       = Some (SentimentDict ''Neutral'' (100 / 1000))"
proof -
  have h1: "''a trip to Paris'' \<noteq> []" by simp
  have h2: "textblob_polarity example_env ''a trip to Paris'' = Inr (7 / 16)"
    by (simp add: example_env_def)
  have h3: "textblob_polarity (example_env\<lparr>textblob_polarity := \<lambda>text. Inr literal_0_1\<rparr>)
         ''a trip to Paris'' = Inr literal_0_1"
    by simp
  have p: "(7 / 16 :: rat) > literal_0_1" by (simp add: literal_0_1_def)
  have fl: "\<lfloor>875 / 2 :: rat\<rfloor> = 437" by (rule floor_unique) simp_all
  have s: "py_round (7 / 16) 3 = 438 / 1000"
    by (simp add: py_round_def round_half_even_def Let_def fl)
  have fl': "\<lfloor>literal_0_1 * 1000\<rfloor> = 100"
    by (rule floor_unique) (simp_all add: literal_0_1_def)
  have s': "py_round literal_0_1 3 = 100 / 1000"
    by (simp add: py_round_def round_half_even_def Let_def fl') (simp add: literal_0_1_def)
  obtain label score where a:
    "fst (get_insights example_env (Some ''a trip to Paris'') example_world) ''sentiment''
       = Some (SentimentDict label score)"
    "label = ''Positive'' \<longleftrightarrow> (7 / 16 :: rat) > literal_0_1"
    "score = py_round (7 / 16) 3"
    using sentiment_label_and_score [OF h1 h2, of example_world] by blast
  obtain label' score' where b:
    "fst (get_insights (example_env\<lparr>textblob_polarity := \<lambda>text. Inr literal_0_1\<rparr>)
            (Some ''a trip to Paris'') example_world) ''sentiment''
       = Some (SentimentDict label' score')"
    "label' = ''Neutral'' \<longleftrightarrow> \<not> literal_0_1 > literal_0_1 \<and> \<not> literal_0_1 < - literal_0_1"
    "score' = py_round literal_0_1 3"
    using sentiment_label_and_score [OF h1 h3, of example_world] by blast
  have n: "\<not> literal_0_1 > literal_0_1 \<and> \<not> literal_0_1 < - literal_0_1"
    by (simp add: literal_0_1_def)
  from a p s have a': "fst (get_insights example_env (Some ''a trip to Paris'') example_world) ''sentiment''
       = Some (SentimentDict ''Positive'' (438 / 1000))"
    by (simp only:) simp
  from b n s' have b': "fst (get_insights (example_env\<lparr>textblob_polarity := \<lambda>text. Inr literal_0_1\<rparr>)
            (Some ''a trip to Paris'') example_world) ''sentiment''
       = Some (SentimentDict ''Neutral'' (100 / 1000))"
    by (simp only:) simp
  from h1 h2 a' h3 b' show ?thesis by (intro conjI)
qed

subsection \<open>The entity loops\<close>

lemma collect_entities_filter:
  "collect_entities ents acc = acc @ filter (\<lambda>ent. snd ent \<in> set kept_labels) ents"
  by (induction ents arbitrary: acc) auto

lemma unique_loop_set:
  "set (unique_loop xs seen acc) = set acc \<union> (set xs - seen)"
  by (induction xs seen acc rule: unique_loop.induct) auto

lemma unique_loop_distinct:
  "distinct acc \<Longrightarrow> set acc \<subseteq> seen \<Longrightarrow> distinct (unique_loop xs seen acc)"
  by (induction xs seen acc rule: unique_loop.induct) auto

lemma unique_loop_acc:
  "unique_loop xs seen (a @ b) = a @ unique_loop xs seen b"
proof (induction xs arbitrary: seen b)
  case Nil
  show ?case by simp
next
  case (Cons x xs)
  have "unique_loop xs (insert x seen) (a @ (b @ [x])) = a @ unique_loop xs (insert x seen) (b @ [x])"
    by (rule Cons.IH)
  then show ?case by (simp add: Cons.IH)
qed

lemma unique_loop_Cons:
  "unique_loop xs seen [x] = x # unique_loop xs seen []"
  using unique_loop_acc [of xs seen "[x]" "[]"] by simp

lemma first_index_shift:
  "x \<notin> set ys \<Longrightarrow> map (first_index (x # xs)) ys = map Suc (map (first_index xs) ys)"
  by (induction ys) auto

lemma sorted_map_Suc: "sorted_wrt (<) (map Suc ns) = sorted_wrt (<) ns"
  by (simp add: sorted_wrt_map)

lemma sorted_first_index_shift:
  assumes "x \<notin> set ys" and "sorted_wrt (<) (map (first_index xs) ys)"
  shows "sorted_wrt (<) (map (first_index (x # xs)) ys)"
  using assms(2) by (simp only: first_index_shift [OF assms(1)] sorted_map_Suc)

lemma sorted_first_index_Cons:
  assumes "x \<notin> set ys" and "sorted_wrt (<) (map (first_index xs) ys)"
  shows "sorted_wrt (<) (map (first_index (x # xs)) (x # ys))"
proof -
  have "first_index (x # xs) x = 0" by simp
  then have "map (first_index (x # xs)) (x # ys) = 0 # map Suc (map (first_index xs) ys)"
    by (simp only: list.map first_index_shift [OF assms(1)])
  moreover have "sorted_wrt (<) (0 # map Suc (map (first_index xs) ys))"
    using assms(2) by (simp add: sorted_map_Suc del: map_map)
  ultimately show ?thesis by (simp only:)
qed

lemma unique_loop_order:
  "sorted_wrt (<) (map (first_index ents) (unique_loop (filter P ents) seen []))"
proof (induction ents arbitrary: seen)
  case Nil
  show ?case by simp
next
  case (Cons x xs)
  show ?case
  proof (cases "P x \<and> x \<notin> seen")
    case True
    let ?rest = "unique_loop (filter P xs) (insert x seen) []"
    have notin: "x \<notin> set ?rest" by (simp add: unique_loop_set)
    have "sorted_wrt (<) (map (first_index (x # xs)) (x # ?rest))"
      using notin Cons.IH by (rule sorted_first_index_Cons)
    moreover have "unique_loop (filter P (x # xs)) seen [] = x # ?rest"
      using True by (simp add: unique_loop_Cons)
    ultimately show ?thesis by (simp only:)
  next
    case False
    let ?rest = "unique_loop (filter P xs) seen []"
    have "x \<notin> set ?rest" using False by (auto simp: unique_loop_set)
    then have "sorted_wrt (<) (map (first_index (x # xs)) ?rest)"
      using Cons.IH by (rule sorted_first_index_shift)
    moreover have "unique_loop (filter P (x # xs)) seen [] = ?rest"
      using False by auto
    ultimately show ?thesis by (simp only:)
  qed
qed

lemma extract_entities_props:
  "set (extract_entities ents) = {x \<in> set ents. snd x \<in> set kept_labels}
   \<and> distinct (extract_entities ents)
   \<and> sorted_wrt (<) (map (first_index ents) (extract_entities ents))"
  by (simp add: extract_entities_def collect_entities_filter unique_loop_set
        unique_loop_distinct unique_loop_order)

lemma extract_entities_labels:
  assumes "x \<in> set (extract_entities ents)"
  shows "snd x \<in> {''PERSON'', ''ORG'', ''GPE'', ''PRODUCT''}"
proof -
  from assms have "snd x \<in> set kept_labels"
    using extract_entities_props [of ents] by blast
  then show ?thesis by (simp add: kept_labels_def)
qed

lemma extract_entities_set:
  "set (extract_entities ents) = {x \<in> set ents. snd x \<in> {''PERSON'', ''ORG'', ''GPE'', ''PRODUCT''}}"
proof -
  have "set kept_labels = {''PERSON'', ''ORG'', ''GPE'', ''PRODUCT''}"
    by (simp add: kept_labels_def)
  then show ?thesis using extract_entities_props [of ents] by (simp only:)
qed

lemma extract_entities_distinct: "distinct (extract_entities ents)"
  using extract_entities_props [of ents] by blast

lemma extract_entities_sorted:
  "sorted_wrt (<) (map (first_index ents) (extract_entities ents))"
  using extract_entities_props [of ents] by blast

lemma extract_entities_cats:
  "\<forall>(text, category) \<in> set (extract_entities ents).
      category \<in> {''PERSON'', ''ORG'', ''GPE'', ''PRODUCT''}"
proof (rule ballI)
  fix x
  assume "x \<in> set (extract_entities ents)"
  then have "snd x \<in> {''PERSON'', ''ORG'', ''GPE'', ''PRODUCT''}"
    by (rule extract_entities_labels)
  then show "case x of (text, category) \<Rightarrow> category \<in> {''PERSON'', ''ORG'', ''GPE'', ''PRODUCT''}"
    by (cases x) (simp only: snd_conv prod.case)
qed

lemma entities_result_props:
  assumes "fst (get_insights e (Some t) w) ''entities'' = Some (Entities es)"
    and "es = [] \<or> (\<exists>ents. es = extract_entities ents)"
    and "nlp e = None \<longrightarrow> es = []"
    and "\<And>m ents. nlp e = Some m \<Longrightarrow> m t = Inr ents \<Longrightarrow> es = extract_entities ents"
  shows "\<exists>es. fst (get_insights e (Some t) w) ''entities'' = Some (Entities es)
         \<and> (\<forall>(text, category) \<in> set es. category \<in> {''PERSON'', ''ORG'', ''GPE'', ''PRODUCT''})
         \<and> distinct es
         \<and> (nlp e = None \<longrightarrow> es = [])
         \<and> (\<forall>m ents. nlp e = Some m \<and> m t = Inr ents \<longrightarrow>
               set es = {x \<in> set ents. snd x \<in> {''PERSON'', ''ORG'', ''GPE'', ''PRODUCT''}}
             \<and> sorted_wrt (<) (map (first_index ents) es))"
proof (rule exI [of _ es], intro conjI allI impI)
  show "fst (get_insights e (Some t) w) ''entities'' = Some (Entities es)" by (rule assms(1))
next
  show "\<forall>(text, category) \<in> set es. category \<in> {''PERSON'', ''ORG'', ''GPE'', ''PRODUCT''}"
    using assms(2)
  proof
    assume "es = []"
    then show ?thesis by simp
  next
    assume "\<exists>ents. es = extract_entities ents"
    then obtain ents where es: "es = extract_entities ents" by (elim exE)
    show ?thesis unfolding es by (rule extract_entities_cats)
  qed
next
  show "distinct es"
    using assms(2)
  proof
    assume "es = []"
    then show ?thesis by simp
  next
    assume "\<exists>ents. es = extract_entities ents"
    then obtain ents where es: "es = extract_entities ents" by (elim exE)
    show ?thesis unfolding es by (rule extract_entities_distinct)
  qed
next
  assume "nlp e = None"
  with assms(3) show "es = []" by (elim mp)
next
  fix m ents
  assume a: "nlp e = Some m \<and> m t = Inr ents"
  from a have es: "es = extract_entities ents" by (intro assms(4) [of m]) simp_all
  show "set es = {x \<in> set ents. snd x \<in> {''PERSON'', ''ORG'', ''GPE'', ''PRODUCT''}}"
    unfolding es by (rule extract_entities_set)
  show "sorted_wrt (<) (map (first_index ents) es)"
    unfolding es by (rule extract_entities_sorted)
qed

text \<open>
  C3. For a non-empty transcript the entities entry of the bundle is a list of
  (text, category) pairs whose categories are all among PERSON, ORG, GPE and PRODUCT,
  with no pair listed twice. It is empty when the NER model is not loaded. When the
  model is loaded and answers, the list holds exactly the tagged pairs of those four
  categories, ordered by the position of their first occurrence in the tagger's output.
\<close>

theorem entities_kept_unique_in_first_seen_order:
  assumes "t \<noteq> []"
  shows "\<exists>es. fst (get_insights e (Some t) w) ''entities'' = Some (Entities es)
         \<and> (\<forall>(text, category) \<in> set es. category \<in> {''PERSON'', ''ORG'', ''GPE'', ''PRODUCT''})
         \<and> distinct es
         \<and> (nlp e = None \<longrightarrow> es = [])
         \<and> (\<forall>m ents. nlp e = Some m \<and> m t = Inr ents \<longrightarrow>
               set es = {x \<in> set ents. snd x \<in> {''PERSON'', ''ORG'', ''GPE'', ''PRODUCT''}}
             \<and> sorted_wrt (<) (map (first_index ents) es))"
proof (cases "nlp e")
  case None
  have "fst (get_insights e (Some t) w) ''entities'' = Some (Entities [])"
    using assms None by (simp add: entities_field)
  then show ?thesis
  proof (rule entities_result_props)
    show "[] = [] \<or> (\<exists>ents. [] = extract_entities ents)"
      by (rule disjI1) (rule refl)
    show "nlp e = None \<longrightarrow> [] = []" by simp
    show "\<And>m ents. nlp e = Some m \<Longrightarrow> m t = Inr ents \<Longrightarrow> [] = extract_entities ents"
      using None by simp
  qed
next
  case (Some m)
  show ?thesis
  proof (cases "m t")
    case (Inl err)
    have "fst (get_insights e (Some t) w) ''entities'' = Some (Entities [])"
      using assms Some Inl by (simp add: entities_field)
    then show ?thesis
    proof (rule entities_result_props)
      show "[] = [] \<or> (\<exists>ents. [] = extract_entities ents)"
        by (rule disjI1) (rule refl)
      show "nlp e = None \<longrightarrow> [] = []" by simp
      show "\<And>m' ents. nlp e = Some m' \<Longrightarrow> m' t = Inr ents \<Longrightarrow> [] = extract_entities ents"
        using Some Inl by simp
    qed
  next
    case (Inr ents)
    have "fst (get_insights e (Some t) w) ''entities'' = Some (Entities (extract_entities ents))"
      using assms Some Inr by (simp add: entities_field)
    then show ?thesis
    proof (rule entities_result_props)
      show "extract_entities ents = [] \<or> (\<exists>ents'. extract_entities ents = extract_entities ents')"
        by (rule disjI2) (rule exI, rule refl)
      show "nlp e = None \<longrightarrow> extract_entities ents = []" using Some by simp
      show "\<And>m' ents'. nlp e = Some m' \<Longrightarrow> m' t = Inr ents' \<Longrightarrow>
              extract_entities ents = extract_entities ents'"
        using Some Inr by simp
    qed
  qed
qed

theorem entities_kept_unique_in_first_seen_order_witness:
  "''a trip to Paris'' \<noteq> []
   \<and> fst (get_insights example_env (Some ''a trip to Paris'') example_world) ''entities''
       = Some (Entities [(''Paris'', ''GPE''), (''John Smith'', ''PERSON'')])
   \<and> fst (get_insights (example_env\<lparr>nlp := None\<rparr>) (Some ''a trip to Paris'') example_world) ''entities''
       = Some (Entities [])"
proof -
  have h: "''a trip to Paris'' \<noteq> []" by simp
  have x: "extract_entities [(''Paris'', ''GPE''), (''today'', ''DATE''),
              (''John Smith'', ''PERSON''), (''Paris'', ''GPE'')]
           = [(''Paris'', ''GPE''), (''John Smith'', ''PERSON'')]"
    by (simp add: extract_entities_def kept_labels_def)
  have a: "fst (get_insights example_env (Some ''a trip to Paris'') example_world) ''entities''
       = Some (Entities [(''Paris'', ''GPE''), (''John Smith'', ''PERSON'')])"
    by (simp add: entities_field [OF h] example_env_def x)
  obtain es where
    es: "fst (get_insights (example_env\<lparr>nlp := None\<rparr>) (Some ''a trip to Paris'') example_world)
           ''entities'' = Some (Entities es)"
      "nlp (example_env\<lparr>nlp := None\<rparr>) = None \<longrightarrow> es = []"
    using entities_kept_unique_in_first_seen_order [OF h, of "example_env\<lparr>nlp := None\<rparr>" example_world]
    by (elim exE conjE) (rule that)
  have "es = []" using es(2) by simp
  with es(1) have "fst (get_insights (example_env\<lparr>nlp := None\<rparr>) (Some ''a trip to Paris'') example_world)
           ''entities'' = Some (Entities [])"
    by (simp only:)
  with a h show ?thesis by (intro conjI)
qed

text \<open>
  C4. For an absent or empty transcript the extractor returns at once: the bundle is
  the empty dictionary and the world is unchanged, so no analysis was called. Read the
  way the caller reads it, the bundle has no sentiment, no summary and an empty list of
  entities.
\<close>

theorem empty_transcript_empty_bundle:
  assumes "t = None \<or> t = Some []"
  shows "get_insights e t w = (Map.empty, w)
       \<and> new_calls w (snd (get_insights e t w)) = []
       \<and> get_sentiment (fst (get_insights e t w)) = None
       \<and> get_summary (fst (get_insights e t w)) = None
       \<and> get_entities (fst (get_insights e t w)) = []"
  using assms
  by (auto simp: get_insights_def new_calls_def get_sentiment_def get_summary_def get_entities_def)

theorem empty_transcript_empty_bundle_witness:
  "get_insights example_env (Some []) example_world = (Map.empty, example_world)
   \<and> get_insights example_env None example_world = (Map.empty, example_world)
   \<and> get_entities (fst (get_insights example_env None example_world)) = []"
proof -
  have a: "Some [] = None \<or> Some [] = Some ([] :: string)" by simp
  have b: "None = None \<or> None = Some ([] :: string)" by simp
  show ?thesis
    using empty_transcript_empty_bundle [OF a, of example_env example_world]
      empty_transcript_empty_bundle [OF b, of example_env example_world]
    by blast
qed

lemma example_extract_entities:
  "extract_entities [(''Paris'', ''GPE''), (''today'', ''DATE''),
              (''John Smith'', ''PERSON''), (''Paris'', ''GPE'')]
   = [(''Paris'', ''GPE''), (''John Smith'', ''PERSON'')]"
  by (simp add: extract_entities_def kept_labels_def)

text \<open>
  C5. For a non-empty transcript the three analyses fail soft and independently.
  Each entry of the bundle is decided by its own analysis alone, whatever the other two
  do: the sentiment entry is the label and score of the polarity, or None if the
  sentiment analysis raises; the summary entry is the summary text of the first
  result, or None if the summarizer is not loaded, raises, or returns no usable result;
  the entities entry is the extracted list, or the empty list if the NER model is not
  loaded or raises. Consequently, making the sentiment analysis raise changes the run
  only in that the sentiment entry becomes None; making a loaded summarizer raise
  changes only the summary entry, to None; making a loaded NER model raise changes only
  the entities entry, to the empty list; the other two entries and the calls made stay
  the same. The calls made are always the sentiment analysis, then the summarizer if
  it is loaded, then the NER model if it is loaded.
\<close>

theorem analyses_fail_soft_independently:
  assumes "t \<noteq> []"
  shows "get_insights (e\<lparr>textblob_polarity := \<lambda>x. Inl err\<rparr>) (Some t) w =
           ((fst (get_insights e (Some t) w))(''sentiment'' \<mapsto> NoneValue),
            snd (get_insights e (Some t) w))
       \<and> (summarizer e \<noteq> None \<longrightarrow>
           get_insights (e\<lparr>summarizer := Some (\<lambda>x mx mn s. Inl err)\<rparr>) (Some t) w =
             ((fst (get_insights e (Some t) w))(''summary'' \<mapsto> NoneValue),
              snd (get_insights e (Some t) w)))
       \<and> (nlp e \<noteq> None \<longrightarrow>
           get_insights (e\<lparr>nlp := Some (\<lambda>x. Inl err)\<rparr>) (Some t) w =
             ((fst (get_insights e (Some t) w))(''entities'' \<mapsto> Entities []),
              snd (get_insights e (Some t) w)))
       \<and> new_calls w (snd (get_insights e (Some t) w)) =
           [TextBlob t]
           @ (if summarizer e = None then [] else [Summarize (take 1000 t) 150 30 False])
           @ (if nlp e = None then [] else [Nlp t])
       \<and> fst (get_insights e (Some t) w) ''sentiment'' =
           Some (case textblob_polarity e t of
                   Inl raised \<Rightarrow> NoneValue
                 | Inr p \<Rightarrow> SentimentDict (sentiment_label p) (py_round p 3))
       \<and> fst (get_insights e (Some t) w) ''summary'' =
           Some (case summarizer e of
                   None \<Rightarrow> NoneValue
                 | Some m \<Rightarrow>
                     (case m (take 1000 t) 150 30 False of
                        Inl raised \<Rightarrow> NoneValue
                      | Inr [] \<Rightarrow> NoneValue
                      | Inr (first # rest) \<Rightarrow>
                          (case first ''summary_text'' of
                             None \<Rightarrow> NoneValue
                           | Some summary_text \<Rightarrow> Text summary_text)))
       \<and> fst (get_insights e (Some t) w) ''entities'' =
           Some (Entities (case nlp e of
                   None \<Rightarrow> []
                 | Some m \<Rightarrow>
                     (case m t of
                        Inl raised \<Rightarrow> []
                      | Inr ents \<Rightarrow> extract_entities ents)))"
proof (intro conjI impI)
  show "get_insights (e\<lparr>textblob_polarity := \<lambda>x. Inl err\<rparr>) (Some t) w =
           ((fst (get_insights e (Some t) w))(''sentiment'' \<mapsto> NoneValue),
            snd (get_insights e (Some t) w))"
  proof (rule prod_eqI)
    show "fst (get_insights (e\<lparr>textblob_polarity := \<lambda>x. Inl err\<rparr>) (Some t) w) =
          fst ((fst (get_insights e (Some t) w))(''sentiment'' \<mapsto> NoneValue),
               snd (get_insights e (Some t) w))"
      unfolding fst_conv
      by (rule bundle_eqI [OF assms])
         (simp_all add: sentiment_field [OF assms] summary_field [OF assms]
            entities_field [OF assms] other_field [OF assms])
  qed (simp add: insights_world [OF assms])
next
  assume "summarizer e \<noteq> None"
  then obtain m where m: "summarizer e = Some m" by blast
  show "get_insights (e\<lparr>summarizer := Some (\<lambda>x mx mn s. Inl err)\<rparr>) (Some t) w =
             ((fst (get_insights e (Some t) w))(''summary'' \<mapsto> NoneValue),
              snd (get_insights e (Some t) w))"
  proof (rule prod_eqI)
    show "fst (get_insights (e\<lparr>summarizer := Some (\<lambda>x mx mn s. Inl err)\<rparr>) (Some t) w) =
          fst ((fst (get_insights e (Some t) w))(''summary'' \<mapsto> NoneValue),
               snd (get_insights e (Some t) w))"
      unfolding fst_conv
      by (rule bundle_eqI [OF assms])
         (simp_all add: sentiment_field [OF assms] summary_field [OF assms]
            entities_field [OF assms] other_field [OF assms])
  qed (simp add: insights_world [OF assms] m)
next
  assume "nlp e \<noteq> None"
  then obtain m where m: "nlp e = Some m" by blast
  show "get_insights (e\<lparr>nlp := Some (\<lambda>x. Inl err)\<rparr>) (Some t) w =
             ((fst (get_insights e (Some t) w))(''entities'' \<mapsto> Entities []),
              snd (get_insights e (Some t) w))"
  proof (rule prod_eqI)
    show "fst (get_insights (e\<lparr>nlp := Some (\<lambda>x. Inl err)\<rparr>) (Some t) w) =
          fst ((fst (get_insights e (Some t) w))(''entities'' \<mapsto> Entities []),
               snd (get_insights e (Some t) w))"
      unfolding fst_conv
      by (rule bundle_eqI [OF assms])
         (simp_all add: sentiment_field [OF assms] summary_field [OF assms]
            entities_field [OF assms] other_field [OF assms])
  qed (simp add: insights_world [OF assms] m)
next
  show "new_calls w (snd (get_insights e (Some t) w)) =
           [TextBlob t]
           @ (if summarizer e = None then [] else [Summarize (take 1000 t) 150 30 False])
           @ (if nlp e = None then [] else [Nlp t])"
    by (simp add: insights_world [OF assms] new_calls_def split: option.splits)
next
  show "fst (get_insights e (Some t) w) ''sentiment'' =
           Some (case textblob_polarity e t of
                   Inl raised \<Rightarrow> NoneValue
                 | Inr p \<Rightarrow> SentimentDict (sentiment_label p) (py_round p 3))"
    by (rule sentiment_field [OF assms])
next
  show "fst (get_insights e (Some t) w) ''summary'' =
           Some (case summarizer e of
                   None \<Rightarrow> NoneValue
                 | Some m \<Rightarrow>
                     (case m (take 1000 t) 150 30 False of
                        Inl raised \<Rightarrow> NoneValue
                      | Inr [] \<Rightarrow> NoneValue
                      | Inr (first # rest) \<Rightarrow>
                          (case first ''summary_text'' of
                             None \<Rightarrow> NoneValue
                           | Some summary_text \<Rightarrow> Text summary_text)))"
    by (rule summary_field [OF assms])
next
  show "fst (get_insights e (Some t) w) ''entities'' =
           Some (Entities (case nlp e of
                   None \<Rightarrow> []
                 | Some m \<Rightarrow>
                     (case m t of
                        Inl raised \<Rightarrow> []
                      | Inr ents \<Rightarrow> extract_entities ents)))"
    by (rule entities_field [OF assms])
qed

theorem analyses_fail_soft_independently_witness:
  "''a trip to Paris'' \<noteq> []
   \<and> summarizer example_env \<noteq> None
   \<and> nlp example_env \<noteq> None
   \<and> fst (get_insights (example_env\<lparr>textblob_polarity := \<lambda>x. Inl (OtherException ''ValueError'')\<rparr>)
            (Some ''a trip to Paris'') example_world) ''sentiment'' = Some NoneValue
   \<and> fst (get_insights (example_env\<lparr>textblob_polarity := \<lambda>x. Inl (OtherException ''ValueError'')\<rparr>)
            (Some ''a trip to Paris'') example_world) ''summary'' = Some (Text ''A trip.'')
   \<and> fst (get_insights (example_env\<lparr>textblob_polarity := \<lambda>x. Inl (OtherException ''ValueError'')\<rparr>)
            (Some ''a trip to Paris'') example_world) ''entities''
       = Some (Entities [(''Paris'', ''GPE''), (''John Smith'', ''PERSON'')])
   \<and> fst (get_insights (example_env\<lparr>summarizer := Some (\<lambda>x mx mn s. Inl (OtherException ''IndexError''))\<rparr>)
            (Some ''a trip to Paris'') example_world) ''summary'' = Some NoneValue
   \<and> fst (get_insights (example_env\<lparr>summarizer := Some (\<lambda>x mx mn s. Inl (OtherException ''IndexError''))\<rparr>)
            (Some ''a trip to Paris'') example_world) ''entities''
       = Some (Entities [(''Paris'', ''GPE''), (''John Smith'', ''PERSON'')])
   \<and> fst (get_insights (example_env\<lparr>nlp := Some (\<lambda>x. Inl (OtherException ''IndexError''))\<rparr>)
            (Some ''a trip to Paris'') example_world) ''entities'' = Some (Entities [])
   \<and> fst (get_insights (example_env\<lparr>nlp := Some (\<lambda>x. Inl (OtherException ''IndexError''))\<rparr>)
            (Some ''a trip to Paris'') example_world) ''summary'' = Some (Text ''A trip.'')"
proof -
  have h: "''a trip to Paris'' \<noteq> []" by simp
  have s: "summarizer example_env \<noteq> None" by (simp add: example_env_def)
  have n: "nlp example_env \<noteq> None" by (simp add: example_env_def)
  note plain = analyses_fail_soft_independently
              [OF h, where e = example_env and err = "OtherException ''IndexError''"
                 and w = example_world]
  note quiet = analyses_fail_soft_independently
              [OF h, where e = "example_env\<lparr>textblob_polarity := \<lambda>x. Inl (OtherException ''ValueError'')\<rparr>"
                 and err = "OtherException ''IndexError''" and w = example_world]
  have p2: "fst (get_insights example_env (Some ''a trip to Paris'') example_world) ''summary''
            = Some (Text ''A trip.'')"
    using plain by (simp add: example_env_def)
  have p3: "fst (get_insights example_env (Some ''a trip to Paris'') example_world) ''entities''
            = Some (Entities [(''Paris'', ''GPE''), (''John Smith'', ''PERSON'')])"
    using plain by (simp add: example_env_def example_extract_entities)
  have q1: "fst (get_insights (example_env\<lparr>textblob_polarity := \<lambda>x. Inl (OtherException ''ValueError'')\<rparr>)
            (Some ''a trip to Paris'') example_world) ''sentiment'' = Some NoneValue"
    using quiet by simp
  have q2: "fst (get_insights (example_env\<lparr>textblob_polarity := \<lambda>x. Inl (OtherException ''ValueError'')\<rparr>)
            (Some ''a trip to Paris'') example_world) ''summary'' = Some (Text ''A trip.'')"
    using quiet by (simp add: example_env_def)
  have q3: "fst (get_insights (example_env\<lparr>textblob_polarity := \<lambda>x. Inl (OtherException ''ValueError'')\<rparr>)
            (Some ''a trip to Paris'') example_world) ''entities''
       = Some (Entities [(''Paris'', ''GPE''), (''John Smith'', ''PERSON'')])"
    using quiet by (simp add: example_env_def example_extract_entities)
  have a: "get_insights (example_env\<lparr>summarizer := Some (\<lambda>x mx mn s. Inl (OtherException ''IndexError''))\<rparr>)
            (Some ''a trip to Paris'') example_world =
           ((fst (get_insights example_env (Some ''a trip to Paris'') example_world))(''summary'' \<mapsto> NoneValue),
            snd (get_insights example_env (Some ''a trip to Paris'') example_world))"
    using plain s by (elim conjE) (erule (1) mp)
  have b: "get_insights (example_env\<lparr>nlp := Some (\<lambda>x. Inl (OtherException ''IndexError''))\<rparr>)
            (Some ''a trip to Paris'') example_world =
           ((fst (get_insights example_env (Some ''a trip to Paris'') example_world))(''entities'' \<mapsto> Entities []),
            snd (get_insights example_env (Some ''a trip to Paris'') example_world))"
    using plain n by (elim conjE) (erule (1) mp)
  show ?thesis unfolding a b using h s n q1 q2 q3 p2 p3 by simp
qed

text \<open>
  C10. For a non-empty transcript the bundle has exactly the three keys sentiment,
  summary and entities, whatever models are loaded and whichever analyses fail: the
  sentiment entry is None or a label with a score, the summary entry is None or a
  text, and the entities entry is a list.
\<close>

theorem bundle_has_all_three_keys:
  assumes "t \<noteq> []"
  shows "dom (fst (get_insights e (Some t) w)) = {''sentiment'', ''summary'', ''entities''}
       \<and> (fst (get_insights e (Some t) w) ''sentiment'' = Some NoneValue
            \<or> (\<exists>label score.
                 fst (get_insights e (Some t) w) ''sentiment'' = Some (SentimentDict label score)))
       \<and> (fst (get_insights e (Some t) w) ''summary'' = Some NoneValue
            \<or> (\<exists>s. fst (get_insights e (Some t) w) ''summary'' = Some (Text s)))
       \<and> (\<exists>es. fst (get_insights e (Some t) w) ''entities'' = Some (Entities es))"
proof (intro conjI)
  show "dom (fst (get_insights e (Some t) w)) = {''sentiment'', ''summary'', ''entities''}"
  proof (rule set_eqI)
    fix k
    show "k \<in> dom (fst (get_insights e (Some t) w)) \<longleftrightarrow> k \<in> {''sentiment'', ''summary'', ''entities''}"
      using sentiment_field [OF assms, of e w] summary_field [OF assms, of e w]
        entities_field [OF assms, of e w] other_field [OF assms, of k e w]
      by (cases "k = ''sentiment''"; cases "k = ''summary''"; cases "k = ''entities''")
         (auto simp: dom_def)
  qed
  show "fst (get_insights e (Some t) w) ''sentiment'' = Some NoneValue
            \<or> (\<exists>label score.
                 fst (get_insights e (Some t) w) ''sentiment'' = Some (SentimentDict label score))"
    by (simp add: sentiment_field [OF assms] split: sum.splits)
  show "fst (get_insights e (Some t) w) ''summary'' = Some NoneValue
            \<or> (\<exists>s. fst (get_insights e (Some t) w) ''summary'' = Some (Text s))"
    by (simp add: summary_field [OF assms] split: sum.splits option.splits list.splits)
  show "\<exists>es. fst (get_insights e (Some t) w) ''entities'' = Some (Entities es)"
    by (simp add: entities_field [OF assms])
qed

theorem bundle_has_all_three_keys_witness:
  "''a trip to Paris'' \<noteq> []
   \<and> dom (fst (get_insights (example_env\<lparr>summarizer := None, nlp := None\<rparr>)
                 (Some ''a trip to Paris'') example_world))
       = {''sentiment'', ''summary'', ''entities''}"
proof -
  have h: "''a trip to Paris'' \<noteq> []" by simp
  show ?thesis
    using bundle_has_all_three_keys
            [OF h, where e = "example_env\<lparr>summarizer := None, nlp := None\<rparr>"
               and w = example_world] h
    by (elim conjE) (rule conjI)
qed

section \<open>Properties of the paper fetcher\<close>









end
